theory Spec2Isabelle
  imports Complex_Main "HOL-Library.Word"
begin

unbundle bit_operations_syntax

section \<open>Package lib: backends and the load balancer\<close>

text \<open>
  The custom errors of the package (\<^verbatim>\<open>ErrNoRegisteredBackends\<close>,
  \<^verbatim>\<open>ErrNoAvailableBackend\<close>, \<^verbatim>\<open>ErrRateLimitReached\<close>), together with the errors that
  \<^verbatim>\<open>RouteConnection\<close> passes on from the dialer and from \<^verbatim>\<open>transferData\<close>.
\<close>

datatype error =
    ErrNoRegisteredBackends
  | ErrNoAvailableBackend
  | ErrRateLimitReached
  | DialError string
  | TransferError string

text \<open>
  \<^verbatim>\<open>type Backend struct { Address string; connections atomic.Int64 }\<close>.
  The counter is a 64-bit two's complement integer: \<^verbatim>\<open>Add\<close> wraps around, and the
  comparison of two counts is the signed one.
\<close>

record Backend =
  Address :: string
  connections :: "64 word"

definition incrementConnections :: "Backend \<Rightarrow> Backend" where
  "incrementConnections b = b\<lparr>connections := connections b + 1\<rparr>"

definition decrementConnections :: "Backend \<Rightarrow> Backend" where
  "decrementConnections b = b\<lparr>connections := connections b + (- 1)\<rparr>"

definition ConnectionCount :: "Backend \<Rightarrow> 64 word" where
  "ConnectionCount b = connections b"

text \<open>
  The load balancer holds \<^verbatim>\<open>[]*Backend\<close>: a slice of pointers. A pointer is a
  reference into a store of \<^verbatim>\<open>Backend\<close> objects, so that a backend registered twice is
  one object with one counter. The registry only ever holds pointers to live objects
  (\<^verbatim>\<open>&lib.Backend{...}\<close>), so the store is total on the references in use.
\<close>

type_synonym ref = nat
type_synonym store = "ref \<Rightarrow> Backend"

text \<open>
  The body of the \<^verbatim>\<open>for _, backend := range lb.backends\<close> loop of \<^verbatim>\<open>GetBackend\<close>.
  The loop state is the pair of local variables \<^verbatim>\<open>selectedBackend\<close> (a pointer, nil at
  the start) and \<^verbatim>\<open>leastConnectionCount\<close>.
\<close>

fun scan_backends ::
  "store \<Rightarrow> string set \<Rightarrow> ref list \<Rightarrow> ref option \<times> 64 word \<Rightarrow> ref option \<times> 64 word"
where
  "scan_backends h allowedBackends [] st = st"
| "scan_backends h allowedBackends (backend # rest) (selectedBackend, leastConnectionCount) =
     (if Address (h backend) \<notin> allowedBackends
      then scan_backends h allowedBackends rest (selectedBackend, leastConnectionCount)
      else if selectedBackend = None \<or> ConnectionCount (h backend) <s leastConnectionCount
      then scan_backends h allowedBackends rest (Some backend, ConnectionCount (h backend))
      else scan_backends h allowedBackends rest (selectedBackend, leastConnectionCount))"

text \<open>
  \<^verbatim>\<open>func (lb *LoadBalancer) GetBackend(allowedBackends map[string]struct{}) (*Backend, error)\<close>.
  The whole body runs under \<^verbatim>\<open>lb.mu\<close>; the model is one atomic step from the registry
  (the slice \<^verbatim>\<open>lb.backends\<close>) and the store to the result and the new store.
  \<^verbatim>\<open>map[string]struct{}\<close> is a set of addresses.
\<close>

definition GetBackend :: "ref list \<Rightarrow> store \<Rightarrow> string set \<Rightarrow> (error + ref) \<times> store" where
  "GetBackend backends h allowedBackends =
     (if length backends = 0 then (Inl ErrNoRegisteredBackends, h)
      else case scan_backends h allowedBackends backends (None, 0) of
             (None, _) \<Rightarrow> (Inl ErrNoAvailableBackend, h)
           | (Some selectedBackend, _) \<Rightarrow>
               (Inr selectedBackend, h(selectedBackend := incrementConnections (h selectedBackend))))"

text \<open>\<^verbatim>\<open>AddBackend\<close> appends to the slice.\<close>

definition AddBackend :: "ref list \<Rightarrow> ref \<Rightarrow> ref list" where
  "AddBackend backends backend = backends @ [backend]"


section \<open>Package lib: the token bucket rate limiter\<close>

text \<open>
  Instants of the clock (\<^verbatim>\<open>time.Time\<close>) are integers counting nanoseconds; a
  \<^verbatim>\<open>time.Duration\<close> is an \<^verbatim>\<open>int64\<close> of nanoseconds, and \<^verbatim>\<open>Time.Sub\<close> saturates at its
  least and greatest value. \<^verbatim>\<open>float64\<close> is idealised as \<^typ>\<open>real\<close>: the results below
  are about the control flow of the bucket and about a refill amount of exactly zero,
  where no rounding takes place.
\<close>

type_synonym time = int

definition maxDuration :: int where
  "maxDuration = 2 ^ 63 - 1"

definition minDuration :: int where
  "minDuration = - (2 ^ 63)"

definition Sub :: "time \<Rightarrow> time \<Rightarrow> int" where
  "Sub t u =
     (let d = t - u
      in if d < minDuration then minDuration
         else if maxDuration < d then maxDuration
         else d)"

definition Seconds :: "int \<Rightarrow> real" where
  "Seconds d = real_of_int d / 1000000000"

text \<open>
  The conversions \<^verbatim>\<open>float64(u)\<close> of a \<^verbatim>\<open>uint64\<close> and \<^verbatim>\<open>uint64(x)\<close> of a
  \<^verbatim>\<open>float64\<close>. The second one truncates towards zero; outside the range of
  \<^verbatim>\<open>uint64\<close> Go leaves its value to the implementation, and the model wraps around.
\<close>

definition float64_of_uint64 :: "64 word \<Rightarrow> real" where
  "float64_of_uint64 u = real (unat u)"

definition uint64_of_float64 :: "real \<Rightarrow> 64 word" where
  "uint64_of_float64 x = word_of_int (if 0 \<le> x then \<lfloor>x\<rfloor> else \<lceil>x\<rceil>)"

record tokenBucket =
  capacity :: "64 word"
  tokens :: "64 word"
  refillRate :: "64 word"
  fractionalTokens :: real
  lastRefillTime :: time

text \<open>\<^verbatim>\<open>newTokenBucket\<close>; \<open>now\<close> is the reading of \<^verbatim>\<open>time.Now()\<close> it takes.\<close>

definition newTokenBucket :: "64 word \<Rightarrow> 64 word \<Rightarrow> time \<Rightarrow> tokenBucket" where
  "newTokenBucket cap rate now =
     \<lparr>capacity = cap, tokens = cap, refillRate = rate,
      fractionalTokens = 0, lastRefillTime = now\<rparr>"

text \<open>The local variable \<^verbatim>\<open>refillAmount\<close> of \<^verbatim>\<open>refillTokens\<close>.\<close>

definition refillAmount :: "time \<Rightarrow> tokenBucket \<Rightarrow> real" where
  "refillAmount now tb =
     Seconds (Sub now (lastRefillTime tb)) * float64_of_uint64 (refillRate tb)"

text \<open>
  \<^verbatim>\<open>func (tb *tokenBucket) refillTokens()\<close>, statement by statement; \<open>now\<close> is the
  reading of \<^verbatim>\<open>time.Now()\<close> in its first line.
\<close>

definition refillTokens :: "time \<Rightarrow> tokenBucket \<Rightarrow> tokenBucket" where
  "refillTokens now tb =
     (let amount = refillAmount now tb;
          wholeTokens = uint64_of_float64 amount;
          tb1 = tb\<lparr>fractionalTokens :=
                     fractionalTokens tb + (amount - float64_of_uint64 wholeTokens)\<rparr>;
          carry = (1 \<le> fractionalTokens tb1);
          wholeTokens' = (if carry then wholeTokens + 1 else wholeTokens);
          tb2 = (if carry then tb1\<lparr>fractionalTokens := fractionalTokens tb1 - 1\<rparr> else tb1)
      in if 0 < amount
         then tb2\<lparr>tokens := min (capacity tb2) (tokens tb2 + wholeTokens'),
                  lastRefillTime := now\<rparr>
         else tb2)"

definition takeToken :: "time \<Rightarrow> tokenBucket \<Rightarrow> bool \<times> tokenBucket" where
  "takeToken now tb =
     (let tb1 = refillTokens now tb
      in if tokens tb1 = 0 then (False, tb1)
         else (True, tb1\<lparr>tokens := tokens tb1 - 1\<rparr>))"

record rateLimiter =
  bucketCapacity :: "64 word"
  bucketRefillRate :: "64 word"
  clientBuckets :: "string \<rightharpoonup> tokenBucket"

definition newRateLimiter :: "64 word \<Rightarrow> 64 word \<Rightarrow> rateLimiter" where
  "newRateLimiter cap rate =
     \<lparr>bucketCapacity = cap, bucketRefillRate = rate, clientBuckets = Map.empty\<rparr>"

text \<open>
  The bucket that \<^verbatim>\<open>allowConnection\<close> works on: the client's one, or a new one made
  at the clock reading \<open>t0\<close> when the client has none.
\<close>

definition lookupBucket :: "rateLimiter \<Rightarrow> string \<Rightarrow> time \<Rightarrow> tokenBucket" where
  "lookupBucket rl clientID t0 =
     (case clientBuckets rl clientID of
        None \<Rightarrow> newTokenBucket (bucketCapacity rl) (bucketRefillRate rl) t0
      | Some bucket \<Rightarrow> bucket)"

text \<open>
  \<^verbatim>\<open>func (rl *rateLimiter) allowConnection(clientID string) bool\<close>, under \<^verbatim>\<open>rl.mu\<close>.
  \<open>t0\<close> is the clock reading of \<^verbatim>\<open>newTokenBucket\<close> (taken only for a new client),
  \<open>t1\<close> the one of \<^verbatim>\<open>refillTokens\<close>. The bucket is held by pointer, so what
  \<^verbatim>\<open>takeToken\<close> does to it is what the map shows afterwards.
\<close>

definition allowConnection ::
  "rateLimiter \<Rightarrow> string \<Rightarrow> time \<Rightarrow> time \<Rightarrow> bool \<times> rateLimiter"
where
  "allowConnection rl clientID t0 t1 =
     (let (ok, bucket) = takeToken t1 (lookupBucket rl clientID t0)
      in (ok, rl\<lparr>clientBuckets := (clientBuckets rl)(clientID \<mapsto> bucket)\<rparr>))"

section \<open>Package lib: routing a connection\<close>

text \<open>
  \<^verbatim>\<open>transferData\<close> starts one \<^verbatim>\<open>io.Copy\<close> per direction and returns
  \<^verbatim>\<open>errors.Join\<close> of the two results, which is nil when both are. The results of
  the two copies come from the environment; the joined message lists them in one fixed
  order, where the source has the order in which the copies end.
\<close>

definition transferData :: "string option \<Rightarrow> string option \<Rightarrow> error option" where
  "transferData fromBackend toBackend =
     (case (fromBackend, toBackend) of
        (None, None) \<Rightarrow> None
      | (Some e1, None) \<Rightarrow> Some (TransferError (''copying data from backend server: '' @ e1))
      | (None, Some e2) \<Rightarrow> Some (TransferError (''copying data to backend server: '' @ e2))
      | (Some e1, Some e2) \<Rightarrow>
          Some (TransferError (''copying data from backend server: '' @ e1 @ [CHR 0x0A]
                 @ ''copying data to backend server: '' @ e2)))"

text \<open>
  What the environment decides during one call of \<^verbatim>\<open>RouteConnection\<close>: whether
  \<^verbatim>\<open>lb.dialer.Dial\<close> fails for an address, how the two copies end, and what the other
  goroutines do to the backends' counters while this call is blocked in the dial and in
  the relay (\<open>concurrent\<close>; the identity when the call runs alone).
\<close>

record env =
  dial :: "string \<Rightarrow> string option"
  copyFromBackend :: "string option"
  copyToBackend :: "string option"
  concurrent :: "store \<Rightarrow> store"

text \<open>The calls on the network that \<^verbatim>\<open>RouteConnection\<close> makes, in order.\<close>

datatype event = Dial string string | Transfer | CloseBackendConn

record LoadBalancer =
  backends :: "ref list"
  rateLimiter :: rateLimiter

text \<open>
  \<^verbatim>\<open>func (lb *LoadBalancer) RouteConnection(clientID, clientConn, allowedBackends) error\<close>.
  The result is the returned error (\<open>None\<close> for nil), the load balancer and the store
  of backends after the call, and the network calls made. The deferred functions run
  when the call returns, on every path after their \<^verbatim>\<open>defer\<close> statement: first
  \<^verbatim>\<open>backendConn.Close()\<close>, then the decrement under \<^verbatim>\<open>lb.mu\<close>.
\<close>

definition RouteConnection ::
  "env \<Rightarrow> LoadBalancer \<Rightarrow> store \<Rightarrow> string \<Rightarrow> string set \<Rightarrow> time \<Rightarrow> time
     \<Rightarrow> error option \<times> LoadBalancer \<times> store \<times> event list"
where
  "RouteConnection e lb h clientID allowedBackends t0 t1 =
     (let (ok, rl1) = allowConnection (rateLimiter lb) clientID t0 t1;
          lb1 = lb\<lparr>rateLimiter := rl1\<rparr>
      in if \<not> ok then (Some ErrRateLimitReached, lb1, h, [])
         else case GetBackend (backends lb1) h allowedBackends of
                (Inl err, h1) \<Rightarrow> (Some err, lb1, h1, [])
              | (Inr selectedBackend, h1) \<Rightarrow>
                  (let address = Address (h1 selectedBackend);
                       (err, events) =
                         (case dial e address of
                            Some msg \<Rightarrow> (Some (DialError msg), [Dial ''tcp'' address])
                          | None \<Rightarrow>
                              (transferData (copyFromBackend e) (copyToBackend e),
                               [Dial ''tcp'' address, Transfer, CloseBackendConn]));
                       h2 = concurrent e h1
                   in (err, lb1,
                       h2(selectedBackend := decrementConnections (h2 selectedBackend)),
                       events)))"


section \<open>Package server: authentication and the client identity\<close>

text \<open>
  What the server reads of an \<^verbatim>\<open>x509.Certificate\<close>: \<^verbatim>\<open>Subject.CommonName\<close> and
  \<^verbatim>\<open>SerialNumber\<close>. Go strings are byte sequences, as \<^typ>\<open>string\<close> is.
\<close>

record Certificate =
  CommonName :: string
  SerialNumber :: int

datatype auth_error =
    ExpectedTLSConnection
  | HandshakeFailed string
  | NoClientCertificate
  | LacksCommonName
  | NotAllowed string
  | NotInACL string

text \<open>
  \<^verbatim>\<open>ValidateCommonName\<close>. The two-valued lookup
  \<^verbatim>\<open>_, isAllowed := allowedClients[clientCertCN]\<close> drops the value stored in the map:
  \<^verbatim>\<open>isAllowed\<close> says whether the key is there.
\<close>

definition ValidateCommonName :: "Certificate \<Rightarrow> (string \<rightharpoonup> bool) \<Rightarrow> auth_error option" where
  "ValidateCommonName clientCert allowedClients =
     (let clientCertCN = CommonName clientCert
      in if clientCertCN = [] then Some LacksCommonName
         else case allowedClients clientCertCN of
                None \<Rightarrow> Some (NotAllowed clientCertCN)
              | Some _ \<Rightarrow> None)"

text \<open>
  A client connection as \<^verbatim>\<open>AuthenticateClient\<close> sees it: whether it is a
  \<^verbatim>\<open>*tls.Conn\<close>, how the handshake ends, and the peer certificates of its state.
\<close>

record Conn =
  isTLS :: bool
  handshake :: "string option"
  PeerCertificates :: "Certificate list"

definition GetClientCertificate :: "Conn \<Rightarrow> auth_error + Certificate" where
  "GetClientCertificate tlsConn =
     (case PeerCertificates tlsConn of
        [] \<Rightarrow> Inl NoClientCertificate
      | clientCert # _ \<Rightarrow> Inr clientCert)"

definition AuthenticateClient :: "Conn \<Rightarrow> (string \<rightharpoonup> bool) \<Rightarrow> auth_error + Certificate" where
  "AuthenticateClient clientConn allowedClients =
     (if \<not> isTLS clientConn then Inl ExpectedTLSConnection
      else case handshake clientConn of
             Some msg \<Rightarrow> Inl (HandshakeFailed msg)
           | None \<Rightarrow>
               (case GetClientCertificate clientConn of
                  Inl err \<Rightarrow> Inl err
                | Inr clientCert \<Rightarrow>
                    (case ValidateCommonName clientCert allowedClients of
                       Some err \<Rightarrow> Inl err
                     | None \<Rightarrow> Inr clientCert)))"

definition AuthorizeClient ::
  "string \<Rightarrow> (string \<rightharpoonup> string set) \<Rightarrow> auth_error + string set"
where
  "AuthorizeClient clientID clientBackendACL =
     (case clientBackendACL clientID of
        None \<Rightarrow> Inl (NotInACL clientID)
      | Some allowedBackends \<Rightarrow> Inr allowedBackends)"

subsection \<open>The standard library's SHA-256 and hexadecimal encoding\<close>

text \<open>
  \<^verbatim>\<open>sha256.Sum256\<close> computes the SHA-256 digest of FIPS 180-4: the message is padded
  to a multiple of 64 bytes, and each block of sixteen big-endian 32-bit words goes
  through 64 rounds over the eight words of the hash value.
\<close>

definition rotr :: "nat \<Rightarrow> 32 word \<Rightarrow> 32 word" where
  "rotr n x = drop_bit n x OR push_bit (32 - n) x"

definition Ch :: "32 word \<Rightarrow> 32 word \<Rightarrow> 32 word \<Rightarrow> 32 word" where
  "Ch x y z = (x AND y) XOR (NOT x AND z)"

definition Maj :: "32 word \<Rightarrow> 32 word \<Rightarrow> 32 word \<Rightarrow> 32 word" where
  "Maj x y z = (x AND y) XOR (x AND z) XOR (y AND z)"

definition bsig0 :: "32 word \<Rightarrow> 32 word" where
  "bsig0 x = rotr 2 x XOR rotr 13 x XOR rotr 22 x"

definition bsig1 :: "32 word \<Rightarrow> 32 word" where
  "bsig1 x = rotr 6 x XOR rotr 11 x XOR rotr 25 x"

definition ssig0 :: "32 word \<Rightarrow> 32 word" where
  "ssig0 x = rotr 7 x XOR rotr 18 x XOR drop_bit 3 x"

definition ssig1 :: "32 word \<Rightarrow> 32 word" where
  "ssig1 x = rotr 17 x XOR rotr 19 x XOR drop_bit 10 x"

definition K256 :: "32 word list" where
  "K256 =
    [0x428a2f98, 0x71374491, 0xb5c0fbcf, 0xe9b5dba5, 0x3956c25b, 0x59f111f1, 0x923f82a4, 0xab1c5ed5,
     0xd807aa98, 0x12835b01, 0x243185be, 0x550c7dc3, 0x72be5d74, 0x80deb1fe, 0x9bdc06a7, 0xc19bf174,
     0xe49b69c1, 0xefbe4786, 0x0fc19dc6, 0x240ca1cc, 0x2de92c6f, 0x4a7484aa, 0x5cb0a9dc, 0x76f988da,
     0x983e5152, 0xa831c66d, 0xb00327c8, 0xbf597fc7, 0xc6e00bf3, 0xd5a79147, 0x06ca6351, 0x14292967,
     0x27b70a85, 0x2e1b2138, 0x4d2c6dfc, 0x53380d13, 0x650a7354, 0x766a0abb, 0x81c2c92e, 0x92722c85,
     0xa2bfe8a1, 0xa81a664b, 0xc24b8b70, 0xc76c51a3, 0xd192e819, 0xd6990624, 0xf40e3585, 0x106aa070,
     0x19a4c116, 0x1e376c08, 0x2748774c, 0x34b0bcb5, 0x391c0cb3, 0x4ed8aa4a, 0x5b9cca4f, 0x682e6ff3,
     0x748f82ee, 0x78a5636f, 0x84c87814, 0x8cc70208, 0x90befffa, 0xa4506ceb, 0xbef9a3f7, 0xc67178f2]"

type_synonym digest_state =
  "32 word \<times> 32 word \<times> 32 word \<times> 32 word \<times> 32 word \<times> 32 word \<times> 32 word \<times> 32 word"

definition H256 :: digest_state where
  "H256 = (0x6a09e667, 0xbb67ae85, 0x3c6ef372, 0xa54ff53a,
           0x510e527f, 0x9b05688c, 0x1f83d9ab, 0x5be0cd19)"

text \<open>
  One round per constant of \<open>K256\<close>. The list \<open>w\<close> holds the sixteen latest words
  of the message schedule, the current one first.
\<close>

fun rounds :: "32 word list \<Rightarrow> 32 word list \<Rightarrow> digest_state \<Rightarrow> digest_state" where
  "rounds [] w s = s"
| "rounds (k # ks) w (a, b, c, d, e, f, g, h) =
     (let t1 = h + bsig1 e + Ch e f g + k + w ! 0;
          t2 = bsig0 a + Maj a b c
      in rounds ks (tl w @ [ssig1 (w ! 14) + w ! 9 + ssig0 (w ! 1) + w ! 0])
           (t1 + t2, a, b, c, d + t1, e, f, g))"

definition add_state :: "digest_state \<Rightarrow> digest_state \<Rightarrow> digest_state" where
  "add_state s t =
     (case (s, t) of
        ((a, b, c, d, e, f, g, h), (a', b', c', d', e', f', g', h')) \<Rightarrow>
          (a + a', b + b', c + c', d + d', e + e', f + f', g + g', h + h'))"

fun be32 :: "8 word list \<Rightarrow> 32 word list" where
  "be32 (b0 # b1 # b2 # b3 # bs) =
     (push_bit 24 (ucast b0) OR push_bit 16 (ucast b1) OR push_bit 8 (ucast b2) OR ucast b3)
       # be32 bs"
| "be32 _ = []"

definition pad :: "8 word list \<Rightarrow> 8 word list" where
  "pad m =
     m @ [0x80] @ replicate ((55 + 64 - length m mod 64) mod 64) 0
       @ map (\<lambda>i. ucast (drop_bit (8 * i) (word_of_nat (8 * length m) :: 64 word)))
           [7, 6, 5, 4, 3, 2, 1, 0]"

function blocks :: "32 word list \<Rightarrow> digest_state \<Rightarrow> digest_state" where
  "blocks ws s =
     (if length ws < 16 then s
      else blocks (drop 16 ws) (add_state s (rounds K256 (take 16 ws) s)))"
  by pat_completeness auto
termination
  by (relation "measure (\<lambda>(ws, s). length ws)") auto

declare blocks.simps [simp del]

definition bytes32 :: "32 word \<Rightarrow> 8 word list" where
  "bytes32 x = [ucast (drop_bit 24 x), ucast (drop_bit 16 x), ucast (drop_bit 8 x), ucast x]"

definition Sum256 :: "8 word list \<Rightarrow> 8 word list" where
  "Sum256 m =
     (case blocks (be32 (pad m)) H256 of
        (a, b, c, d, e, f, g, h) \<Rightarrow> concat (map bytes32 [a, b, c, d, e, f, g, h]))"

text \<open>
  \<^verbatim>\<open>hex.EncodeToString\<close>: for each byte \<^verbatim>\<open>v\<close> of the source the two characters
  \<^verbatim>\<open>hextable[v>>4]\<close> and \<^verbatim>\<open>hextable[v&0x0f]\<close>.
\<close>

definition hextable :: string where
  "hextable = ''0123456789abcdef''"

fun EncodeToString :: "8 word list \<Rightarrow> string" where
  "EncodeToString [] = []"
| "EncodeToString (v # src) =
     hextable ! unat (drop_bit 4 v) # hextable ! unat (v AND 0x0f) # EncodeToString src"

text \<open>The conversion \<^verbatim>\<open>[]byte(s)\<close> of a string.\<close>

definition bytes :: "string \<Rightarrow> 8 word list" where
  "bytes s = map of_char s"

text \<open>
  \<^verbatim>\<open>func GenerateClientID(cn string, serialNumber string) string\<close>;
  \<^verbatim>\<open>fmt.Sprintf("%s:%s", cn, serialNumber)\<close> puts a colon between the two strings.
\<close>

definition GenerateClientID :: "string \<Rightarrow> string \<Rightarrow> string" where
  "GenerateClientID cn serialNumber =
     (let combined = cn @ '':'' @ serialNumber;
          hash = Sum256 (bytes combined);
          clientID = EncodeToString hash
      in clientID)"

text \<open>
  The specification's wording of the encoding, for comparison: every byte as two
  hexadecimal digits, the high one first, with the letters in lower case.
\<close>

definition hex_digit :: "nat \<Rightarrow> char" where
  "hex_digit n =
     (if n < 10 then ''0123456789'' ! n else ''abcdef'' ! (n - 10))"

definition hex_lowercase :: "8 word list \<Rightarrow> string" where
  "hex_lowercase bs = concat (map (\<lambda>b. [hex_digit (unat b div 16), hex_digit (unat b mod 16)]) bs)"


section \<open>Package server: the accept loop\<close>

text \<open>
  What one call of \<^verbatim>\<open>s.listener.Accept()\<close> returns, as the environment decides it: a
  connection; an error while the server keeps running; or the error of a closed
  listener, when \<^verbatim>\<open>Stop\<close> ran while the loop was blocked in \<^verbatim>\<open>Accept\<close>
  (\<^verbatim>\<open>s.shutdown.Store(true)\<close>, then \<^verbatim>\<open>s.listener.Close()\<close>). The errors carry
  their message.
\<close>

datatype accept_result = Accepted nat | Fault string | ListenerClosed string

definition Accept :: "bool \<Rightarrow> accept_result \<Rightarrow> (string + nat) \<times> bool" where
  "Accept shutdown r =
     (case r of
        Accepted conn \<Rightarrow> (Inr conn, shutdown)
      | Fault msg \<Rightarrow> (Inl msg, shutdown)
      | ListenerClosed msg \<Rightarrow> (Inl msg, True))"

text \<open>
  What the loop does, in order: lines written to the log, sleeps, and connections
  handed to a new goroutine. It ends by returning (with the retry counter it had), by
  \<^verbatim>\<open>log.Fatalf\<close>, which ends the process with status 1, or it stays blocked in
  \<^verbatim>\<open>Accept\<close> when the environment has nothing more to deliver.
\<close>

datatype action = Log string | Sleep int | Handle nat

datatype outcome = Returned nat | Fatal | Blocked nat

definition retryLimit :: nat where
  "retryLimit = 5"

definition retryDelay :: int where
  "retryDelay = 1000000000"

text \<open>
  The loop \<^verbatim>\<open>for !s.shutdown.Load() { ... }\<close> of \<^verbatim>\<open>acceptConnections\<close>; its state is
  the shutdown flag and the local \<^verbatim>\<open>retryCount\<close>.
\<close>

fun accept_loop :: "bool \<Rightarrow> nat \<Rightarrow> accept_result list \<Rightarrow> action list \<times> outcome" where
  "accept_loop shutdown retryCount [] =
     (if shutdown then ([], Returned retryCount) else ([], Blocked retryCount))"
| "accept_loop shutdown retryCount (r # rest) =
     (if shutdown then ([], Returned retryCount)
      else (let (res, shutdown') = Accept shutdown r
            in (case res of
                  Inl err \<Rightarrow>
                    (if retryCount < retryLimit
                     then (let (acts, out) = accept_loop shutdown' (retryCount + 1) rest
                           in (Log (''Error accepting connection: '' @ err)
                                 # Sleep retryDelay # acts, out))
                     else ([Log (''Exiting due to repeated errors: '' @ err)], Fatal))
                | Inr conn \<Rightarrow>
                    (let (acts, out) = accept_loop shutdown' 0 rest
                     in (Handle conn # acts, out)))))"

definition acceptConnections :: "string \<Rightarrow> accept_result list \<Rightarrow> action list \<times> outcome" where
  "acceptConnections address rs =
     (let (acts, out) = accept_loop False 0 rs
      in (Log (''Server is listening on '' @ address) # acts, out))"

section \<open>The command: main\<close>

text \<open>Decimal digits of a number, as \<^verbatim>\<open>%d\<close> prints them.\<close>

fun decimal :: "nat \<Rightarrow> string" where
  "decimal n =
     (if n < 10 then [''0123456789'' ! n]
      else decimal (n div 10) @ [''0123456789'' ! (n mod 10)])"

declare decimal.simps [simp del]

text \<open>
  The fields of the application's configuration that \<^verbatim>\<open>main\<close> reads. What the
  functions \<^verbatim>\<open>config.LoadAppConfig\<close> and \<^verbatim>\<open>config.MakeServerTLSConfig\<close> of package
  \<^verbatim>\<open>config\<close> return is given by the environment, as is the result of starting the
  listener, whether a signal arrives, and the result of \<^verbatim>\<open>Stop\<close>.
\<close>

record AppConfig =
  Port :: nat
  Backends :: "string list"
  CertFile :: string
  KeyFile :: string
  CAFile :: string
  Capacity :: "64 word"
  RefillRate :: "64 word"
  AllowedClients :: "string \<rightharpoonup> bool"
  ClientBackendACL :: "string \<rightharpoonup> string list"

record main_env =
  LoadAppConfig :: "string \<Rightarrow> string + AppConfig"
  MakeServerTLSConfig :: "string \<Rightarrow> string \<Rightarrow> string \<Rightarrow> string option"
  Start :: "string \<Rightarrow> string option"
  signalled :: bool
  Stop :: "string option"

datatype written = Stdout string | Stderr string

text \<open>
  How the process ends: with an exit status (0 when \<^verbatim>\<open>main\<close> returns, 1 after
  \<^verbatim>\<open>log.Fatal\<close>), or not at all while it waits for a signal.
\<close>

datatype exit = Exit nat | Waiting

definition mapSliceToMapSet :: "(string \<rightharpoonup> string list) \<Rightarrow> (string \<rightharpoonup> string set)" where
  "mapSliceToMapSet mapSlice = (\<lambda>key. map_option set (mapSlice key))"

text \<open>
  The checks of \<^verbatim>\<open>NewServer\<close> on the configuration it is given. The load balancer
  and the TLS configuration that \<^verbatim>\<open>main\<close> passes are not nil, so the two checks for
  nil pass.
\<close>

definition NewServer ::
  "string \<Rightarrow> (string \<rightharpoonup> bool) \<Rightarrow> (string \<rightharpoonup> string set) \<Rightarrow> string option"
where
  "NewServer address allowedClients clientBackendACL =
     (if address = [] then Some ''provided address is blank''
      else if allowedClients = Map.empty
      then Some ''allowed clients list configuration is required''
      else if clientBackendACL = Map.empty
      then Some ''access control list configuration is required''
      else None)"

fun backend_lines :: "nat \<Rightarrow> string list \<Rightarrow> written list" where
  "backend_lines i [] = []"
| "backend_lines i (address # rest) =
     Stderr (decimal (i + 1) @ '': '' @ address) # backend_lines (i + 1) rest"

text \<open>
  \<^verbatim>\<open>func main()\<close>. \<open>configFileFlag\<close> is the variable of that name after
  \<^verbatim>\<open>flag.Parse()\<close>: the value of \<^verbatim>\<open>-config\<close>, and the default \<^verbatim>\<open>""\<close> when the command
  line has no such flag. The result is what the process writes (the logger writes to
  standard error; the time stamp it puts in front of a line is left out) and how it
  ends.
\<close>

definition main :: "main_env \<Rightarrow> string \<Rightarrow> written list \<times> exit" where
  "main e configFileFlag =
     (if configFileFlag = []
      then ([Stdout ''Error: Configuration file not provided'',
             Stderr ''Usage:'',
             Stderr ''  -config string'',
             Stderr (''    '' @ [CHR 0x09] @ ''Path to a configuration file'')],
            Exit 0)
      else case LoadAppConfig e configFileFlag of
             Inl err \<Rightarrow> ([Stderr err], Exit 1)
           | Inr appConfig \<Rightarrow>
               (let out1 = Stderr ''Backend Servers:'' # backend_lines 0 (Backends appConfig)
                in case MakeServerTLSConfig e (CertFile appConfig) (KeyFile appConfig)
                          (CAFile appConfig) of
                     Some err \<Rightarrow> (out1 @ [Stderr err], Exit 1)
                   | None \<Rightarrow>
                       (let listenAddr = '':'' @ decimal (Port appConfig)
                        in case NewServer listenAddr (AllowedClients appConfig)
                                  (mapSliceToMapSet (ClientBackendACL appConfig)) of
                             Some err \<Rightarrow> (out1 @ [Stderr err], Exit 1)
                           | None \<Rightarrow>
                               (case Start e listenAddr of
                                  Some err \<Rightarrow>
                                    (out1 @ [Stderr (''unable to initialize server TLS listener: ''
                                                      @ err)], Exit 1)
                                | None \<Rightarrow>
                                    (if \<not> signalled e then (out1, Waiting)
                                     else (let out2 = out1 @ [Stderr ''Shutting down the server...'']
                                           in (case Stop e of
                                                 Some err \<Rightarrow> (out2 @ [Stderr err], Exit 1)
                                               | None \<Rightarrow>
                                                   (out2 @ [Stderr ''Server stopped.''],
                                                    Exit 0))))))))"

section \<open>Examples\<close>

text \<open>
  Three backends in a store: the first with two active connections, the other two with
  one each.
\<close>

definition example_store :: store where
  "example_store =
     (\<lambda>_. \<lparr>Address = [], connections = 0\<rparr>)
       (0 := \<lparr>Address = ''127.0.0.1:5001'', connections = 2\<rparr>,
        1 := \<lparr>Address = ''127.0.0.1:5002'', connections = 1\<rparr>,
        2 := \<lparr>Address = ''127.0.0.1:5003'', connections = 1\<rparr>)"

definition example_allowed :: "string set" where
  "example_allowed = {''127.0.0.1:5001'', ''127.0.0.1:5002'', ''127.0.0.1:5003''}"

text \<open>A load balancer with these backends and a fresh rate limiter (capacity 5).\<close>

definition example_lb :: LoadBalancer where
  "example_lb = \<lparr>backends = [0, 1, 2], rateLimiter = newRateLimiter 5 1\<rparr>"

text \<open>The same with a rate limiter of capacity 0, which admits nobody.\<close>

definition closed_lb :: LoadBalancer where
  "closed_lb = \<lparr>backends = [0, 1, 2], rateLimiter = newRateLimiter 0 1\<rparr>"

text \<open>An environment in which every dial fails, and one in which all goes well.\<close>

definition failing_env :: env where
  "failing_env =
     \<lparr>dial = (\<lambda>_. Some ''connection refused''), copyFromBackend = None,
      copyToBackend = None, concurrent = (\<lambda>h. h)\<rparr>"

definition working_env :: env where
  "working_env =
     \<lparr>dial = (\<lambda>_. None), copyFromBackend = None, copyToBackend = None,
      concurrent = (\<lambda>h. h)\<rparr>"



definition example_cert :: Certificate where
  "example_cert = \<lparr>CommonName = ''client1.example.com'', SerialNumber = 1234567890\<rparr>"

definition example_conn :: Conn where
  "example_conn = \<lparr>isTLS = True, handshake = None, PeerCertificates = [example_cert]\<rparr>"


section \<open>Least-connections selection\<close>

lemma scan_backends_None:
  "scan_backends h A rs (sel, lc) = (None, lc') \<longleftrightarrow>
     sel = None \<and> lc' = lc \<and> (\<forall>r\<in>set rs. Address (h r) \<notin> A)"
  by (induction rs arbitrary: sel lc) auto

text \<open>
  The invariant of the scan. When the loop ends with \<open>B\<close> selected, either \<open>B\<close> was
  selected before and no allowed backend of the list was strictly below the recorded
  count, or the list splits at an occurrence of \<open>B\<close>: every allowed backend before it
  has a strictly greater count, and every allowed one after it a count at least as
  great.
\<close>

lemma scan_backends_Some:
  "scan_backends h A rs (sel, lc) = (Some B, lc') \<Longrightarrow>
   (\<forall>s. sel = Some s \<longrightarrow> lc = ConnectionCount (h s)) \<Longrightarrow>
   lc' = ConnectionCount (h B) \<and>
   ((sel = Some B \<and> (\<forall>r\<in>set rs. Address (h r) \<in> A \<longrightarrow> \<not> ConnectionCount (h r) <s lc)) \<or>
    (\<exists>pre post. rs = pre @ B # post \<and> Address (h B) \<in> A \<and>
       (sel \<noteq> None \<longrightarrow> ConnectionCount (h B) <s lc) \<and>
       (\<forall>r\<in>set pre. Address (h r) \<in> A \<longrightarrow> ConnectionCount (h B) <s ConnectionCount (h r)) \<and>
       (\<forall>r\<in>set post. Address (h r) \<in> A \<longrightarrow> ConnectionCount (h B) \<le>s ConnectionCount (h r))))"
proof (induction rs arbitrary: sel lc)
  case Nil
  then show ?case by auto
next
  case (Cons x xs)
  let ?c = "\<lambda>r. ConnectionCount (h r)"
  let ?split = "\<lambda>rs sel lc. \<exists>pre post. rs = pre @ B # post \<and> Address (h B) \<in> A \<and>
         (sel \<noteq> None \<longrightarrow> ?c B <s lc) \<and>
         (\<forall>r\<in>set pre. Address (h r) \<in> A \<longrightarrow> ?c B <s ?c r) \<and>
         (\<forall>r\<in>set post. Address (h r) \<in> A \<longrightarrow> ?c B \<le>s ?c r)"
  let ?kept = "\<lambda>rs sel lc. sel = Some B \<and> (\<forall>r\<in>set rs. Address (h r) \<in> A \<longrightarrow> \<not> ?c r <s lc)"
  show ?case
  proof (cases "Address (h x) \<in> A")
    case False
    with Cons.prems have run: "scan_backends h A xs (sel, lc) = (Some B, lc')" by simp
    from Cons.IH [OF run Cons.prems(2)]
    have lc': "lc' = ?c B" and alt: "?kept xs sel lc \<or> ?split xs sel lc" by blast+
    from alt show ?thesis
    proof
      assume "?kept xs sel lc"
      with False lc' show ?thesis by simp
    next
      assume "?split xs sel lc"
      then obtain pre post where d: "xs = pre @ B # post" "Address (h B) \<in> A"
         "sel \<noteq> None \<longrightarrow> ?c B <s lc"
         "\<forall>r\<in>set pre. Address (h r) \<in> A \<longrightarrow> ?c B <s ?c r"
         "\<forall>r\<in>set post. Address (h r) \<in> A \<longrightarrow> ?c B \<le>s ?c r" by blast
      have "x # xs = (x # pre) @ B # post" using d(1) by simp
      moreover have "\<forall>r\<in>set (x # pre). Address (h r) \<in> A \<longrightarrow> ?c B <s ?c r"
        using d(4) False by simp
      ultimately show ?thesis using lc' d(2,3,5) by blast
    qed
  next
    case True
    show ?thesis
    proof (cases "sel = None \<or> ?c x <s lc")
      case better: True
      with True Cons.prems have run: "scan_backends h A xs (Some x, ?c x) = (Some B, lc')"
        by auto
      have inv: "\<forall>s. Some x = Some s \<longrightarrow> ?c x = ?c s" by simp
      from Cons.IH [OF run inv]
      have lc': "lc' = ?c B" and alt: "?kept xs (Some x) (?c x) \<or> ?split xs (Some x) (?c x)"
        by blast+
      from alt show ?thesis
      proof
        assume a: "?kept xs (Some x) (?c x)"
        then have xB: "x = B" by simp
        have "x # xs = [] @ B # xs" using xB by simp
        moreover have "\<forall>r\<in>set xs. Address (h r) \<in> A \<longrightarrow> ?c B \<le>s ?c r"
          using a xB by (auto simp: word_sle_eq word_sless_alt)
        moreover have "sel \<noteq> None \<longrightarrow> ?c B <s lc" using better xB by auto
        moreover have "Address (h B) \<in> A" using True xB by simp
        moreover have "\<forall>r\<in>set []. Address (h r) \<in> A \<longrightarrow> ?c B <s ?c r" by simp
        ultimately show ?thesis using lc' by blast
      next
        assume "?split xs (Some x) (?c x)"
        then obtain pre post where d: "xs = pre @ B # post" "Address (h B) \<in> A"
           "?c B <s ?c x"
           "\<forall>r\<in>set pre. Address (h r) \<in> A \<longrightarrow> ?c B <s ?c r"
           "\<forall>r\<in>set post. Address (h r) \<in> A \<longrightarrow> ?c B \<le>s ?c r" by blast
        have "x # xs = (x # pre) @ B # post" using d(1) by simp
        moreover have "\<forall>r\<in>set (x # pre). Address (h r) \<in> A \<longrightarrow> ?c B <s ?c r"
          using d(3,4) by simp
        moreover have "sel \<noteq> None \<longrightarrow> ?c B <s lc"
          using better d(3) by (auto simp: word_sless_alt)
        ultimately show ?thesis using lc' d(2,5) by blast
      qed
    next
      case worse: False
      with True Cons.prems have run: "scan_backends h A xs (sel, lc) = (Some B, lc')" by auto
      from worse have selS: "sel \<noteq> None" and nl: "\<not> ?c x <s lc" by auto
      from Cons.IH [OF run Cons.prems(2)]
      have lc': "lc' = ?c B" and alt: "?kept xs sel lc \<or> ?split xs sel lc" by blast+
      from alt show ?thesis
      proof
        assume "?kept xs sel lc"
        with nl lc' show ?thesis by simp
      next
        assume "?split xs sel lc"
        then obtain pre post where d: "xs = pre @ B # post" "Address (h B) \<in> A"
           "sel \<noteq> None \<longrightarrow> ?c B <s lc"
           "\<forall>r\<in>set pre. Address (h r) \<in> A \<longrightarrow> ?c B <s ?c r"
           "\<forall>r\<in>set post. Address (h r) \<in> A \<longrightarrow> ?c B \<le>s ?c r" by blast
        have "x # xs = (x # pre) @ B # post" using d(1) by simp
        moreover have "?c B <s ?c x" using d(3) selS nl by (auto simp: word_sless_alt)
        then have "\<forall>r\<in>set (x # pre). Address (h r) \<in> A \<longrightarrow> ?c B <s ?c r"
          using d(4) by simp
        ultimately show ?thesis using lc' d(2,3,5) by blast
      qed
    qed
  qed
qed

lemma GetBackend_cases:
  "GetBackend bs h A = (Inl ErrNoRegisteredBackends, h) \<or>
   GetBackend bs h A = (Inl ErrNoAvailableBackend, h) \<or>
   (\<exists>B. GetBackend bs h A = (Inr B, h(B := incrementConnections (h B))))"
  by (auto simp: GetBackend_def split: prod.splits option.splits)

lemma GetBackend_scan:
  assumes "GetBackend bs h A = (Inr B, h')"
  shows "\<exists>lc. scan_backends h A bs (None, 0) = (Some B, lc)"
  using assms by (auto simp: GetBackend_def split: if_splits prod.splits option.splits)

lemma example_pick:
  "GetBackend (backends example_lb) example_store example_allowed =
     (Inr 1, example_store(1 := incrementConnections (example_store 1)))"
  by (simp add: GetBackend_def example_lb_def example_store_def example_allowed_def
        ConnectionCount_def word_sless_alt)

text \<open>
  C1. When \<^verbatim>\<open>GetBackend\<close> returns a backend \<open>B\<close>, the address of \<open>B\<close> is allowed; its
  count is least (in the signed order of \<^verbatim>\<open>int64\<close>) among the registered backends with
  an allowed address; the registry splits at an occurrence of \<open>B\<close> before which every
  allowed backend has a strictly greater count, so \<open>B\<close> is the first with the least
  count in insertion order; and the store after the call is the store before it with
  the counter of \<open>B\<close> incremented, so that the counter is the observed value plus one.
\<close>

theorem GetBackend_least_connections:
  assumes "GetBackend bs h allowed = (Inr B, h')"
  shows "Address (h B) \<in> allowed \<and>
         (\<forall>r\<in>set bs. Address (h r) \<in> allowed \<longrightarrow> ConnectionCount (h B) \<le>s ConnectionCount (h r)) \<and>
         (\<exists>pre post. bs = pre @ B # post \<and>
            (\<forall>r\<in>set pre. Address (h r) \<in> allowed \<longrightarrow>
               ConnectionCount (h B) <s ConnectionCount (h r))) \<and>
         h' = h(B := incrementConnections (h B)) \<and>
         ConnectionCount (h' B) = ConnectionCount (h B) + 1"
proof -
  let ?c = "\<lambda>r. ConnectionCount (h r)"
  from GetBackend_scan [OF assms] obtain lc
    where sc: "scan_backends h allowed bs (None, 0) = (Some B, lc)" by blast
  have "\<forall>s. (None :: ref option) = Some s \<longrightarrow> (0 :: 64 word) = ?c s" by simp
  from scan_backends_Some [OF sc this]
  obtain pre post where d: "bs = pre @ B # post" "Address (h B) \<in> allowed"
     "\<forall>r\<in>set pre. Address (h r) \<in> allowed \<longrightarrow> ?c B <s ?c r"
     "\<forall>r\<in>set post. Address (h r) \<in> allowed \<longrightarrow> ?c B \<le>s ?c r" by blast
  have least: "\<forall>r\<in>set bs. Address (h r) \<in> allowed \<longrightarrow> ?c B \<le>s ?c r"
  proof (intro ballI impI)
    fix r assume r: "r \<in> set bs" "Address (h r) \<in> allowed"
    from r(1) d(1) have "r \<in> set pre \<or> r = B \<or> r \<in> set post" by auto
    then show "?c B \<le>s ?c r"
      using d(3,4) r(2) by (auto simp: word_sle_eq word_sless_alt)
  qed
  have h': "h' = h(B := incrementConnections (h B))"
    using assms GetBackend_cases [of bs h allowed] by auto
  then have "ConnectionCount (h' B) = ?c B + 1"
    by (simp add: ConnectionCount_def incrementConnections_def)
  with d(1,2,3) least h' show ?thesis by blast
qed

theorem GetBackend_least_connections_witness:
  "GetBackend (backends example_lb) example_store example_allowed =
     (Inr 1, example_store(1 := incrementConnections (example_store 1))) \<and>
   Address (example_store 1) \<in> example_allowed \<and>
   ConnectionCount ((example_store(1 := incrementConnections (example_store 1))) 1) =
     ConnectionCount (example_store 1) + 1"
  using GetBackend_least_connections [OF example_pick] example_pick by simp

text \<open>
  C5. \<^verbatim>\<open>GetBackend\<close> returns \<^verbatim>\<open>ErrNoRegisteredBackends\<close> exactly when the registry
  is empty, and \<^verbatim>\<open>ErrNoAvailableBackend\<close> exactly when the registry is not empty and
  no registered backend has an allowed address; whenever it returns an error, the store
  of backends is the one it started from.
\<close>

theorem GetBackend_errors:
  "(fst (GetBackend bs h allowed) = Inl ErrNoRegisteredBackends \<longleftrightarrow> bs = []) \<and>
   (fst (GetBackend bs h allowed) = Inl ErrNoAvailableBackend \<longleftrightarrow>
      bs \<noteq> [] \<and> (\<forall>r\<in>set bs. Address (h r) \<notin> allowed)) \<and>
   (\<forall>err. fst (GetBackend bs h allowed) = Inl err \<longrightarrow> snd (GetBackend bs h allowed) = h)"
proof (cases "bs = []")
  case True
  then show ?thesis by (simp add: GetBackend_def)
next
  case False
  obtain sel lc where sc: "scan_backends h allowed bs (None, 0) = (sel, lc)"
    by (cases "scan_backends h allowed bs (None, 0)")
  show ?thesis
  proof (cases sel)
    case None
    with sc scan_backends_None [of h allowed bs None 0 lc] False show ?thesis
      by (simp add: GetBackend_def)
  next
    case (Some B)
    with sc scan_backends_None [of h allowed bs None 0 0] False show ?thesis
      by (auto simp add: GetBackend_def)
  qed
qed

theorem GetBackend_errors_witness:
  "fst (GetBackend [] example_store {''x:1''}) = Inl ErrNoRegisteredBackends \<and>
   fst (GetBackend [0, 1, 2] example_store {''x:1''}) = Inl ErrNoAvailableBackend \<and>
   snd (GetBackend [0, 1, 2] example_store {''x:1''}) = example_store"
proof -
  have "\<forall>r\<in>set [0, 1, 2 :: nat]. Address (example_store r) \<notin> {''x:1''}"
    by (simp add: example_store_def)
  then show ?thesis
    using GetBackend_errors [of "[]" example_store "{''x:1''}"]
      GetBackend_errors [of "[0, 1, 2]" example_store "{''x:1''}"]
    by simp
qed


section \<open>Routing a connection\<close>

lemma decrement_increment: "decrementConnections (incrementConnections b) = b"
  by (simp add: decrementConnections_def incrementConnections_def)

lemma allowConnection_fst:
  "fst (allowConnection rl c t0 t1) = fst (takeToken t1 (lookupBucket rl c t0))"
  by (simp add: allowConnection_def split: prod.splits)

lemma example_allow: "fst (allowConnection (rateLimiter example_lb) ''client1'' 0 0)"
  by (simp add: allowConnection_def example_lb_def newRateLimiter_def lookupBucket_def
        newTokenBucket_def takeToken_def refillTokens_def refillAmount_def Sub_def Seconds_def
        minDuration_def maxDuration_def uint64_of_float64_def float64_of_uint64_def Let_def)

lemma example_deny: "\<not> fst (allowConnection (rateLimiter closed_lb) ''client1'' 0 0)"
  by (simp add: allowConnection_def closed_lb_def newRateLimiter_def lookupBucket_def
        newTokenBucket_def takeToken_def refillTokens_def refillAmount_def Sub_def Seconds_def
        minDuration_def maxDuration_def uint64_of_float64_def float64_of_uint64_def Let_def)

text \<open>
  C2. In a call of \<^verbatim>\<open>RouteConnection\<close> that is admitted by the rate limiter and in
  which \<^verbatim>\<open>GetBackend\<close> returns \<open>B\<close> (leaving the store \<open>h1\<close>), whatever the dial
  and the relay do: the store after the call is the store at the end of the dial and
  relay with \<^verbatim>\<open>decrementConnections\<close> applied once to \<open>B\<close>; \<open>h1\<close> is the store before
  the call with the counter of \<open>B\<close> incremented; and when no other goroutine has changed
  the store in between, the store after the call is the store before it, so the net
  change of the counter of \<open>B\<close> is zero.
\<close>

theorem RouteConnection_releases_backend:
  assumes "fst (allowConnection (rateLimiter lb) clientID t0 t1)"
      and "GetBackend (backends lb) h allowed = (Inr B, h1)"
      and "RouteConnection e lb h clientID allowed t0 t1 = (res, lb', h', events)"
  shows "h' = (concurrent e h1)(B := decrementConnections (concurrent e h1 B)) \<and>
         h1 = h(B := incrementConnections (h B)) \<and>
         (concurrent e h1 = h1 \<longrightarrow> h' = h \<and> connections (h' B) = connections (h B))"
proof -
  have h1: "h1 = h(B := incrementConnections (h B))"
    using assms(2) GetBackend_cases [of "backends lb" h allowed] by auto
  have h': "h' = (concurrent e h1)(B := decrementConnections (concurrent e h1 B))"
    using assms by (auto simp: RouteConnection_def Let_def split: prod.splits option.splits)
  show ?thesis using h1 h' by (auto simp: decrement_increment)
qed

theorem RouteConnection_releases_backend_witness:
  "fst (allowConnection (rateLimiter example_lb) ''client1'' 0 0) \<and>
   fst (GetBackend (backends example_lb) example_store example_allowed) = Inr 1 \<and>
   fst (RouteConnection failing_env example_lb example_store ''client1'' example_allowed 0 0) =
     Some (DialError ''connection refused'') \<and>
   fst (snd (snd (RouteConnection failing_env example_lb example_store ''client1''
     example_allowed 0 0))) = example_store"
proof -
  let ?r = "RouteConnection failing_env example_lb example_store ''client1'' example_allowed 0 0"
  obtain res lb' h' events where r: "?r = (res, lb', h', events)"
    by (cases ?r) auto
  have c: "concurrent failing_env
             (example_store(1 := incrementConnections (example_store 1))) =
           example_store(1 := incrementConnections (example_store 1))"
    by (simp add: failing_env_def)
  from RouteConnection_releases_backend [OF example_allow example_pick r] c
  have "h' = example_store" by blast
  moreover have "res = Some (DialError ''connection refused'')"
    using r example_allow example_pick
    by (auto simp: RouteConnection_def Let_def failing_env_def split: prod.splits)
  ultimately show ?thesis using r example_allow example_pick by simp
qed

text \<open>
  C4. When \<^verbatim>\<open>allowConnection\<close> returns false, \<^verbatim>\<open>RouteConnection\<close> returns
  \<^verbatim>\<open>ErrRateLimitReached\<close>; the registry and the store of backends are the ones before
  the call; no dial, relay or close takes place; and the result is the same whatever
  the registry, the store and the allowed set are, so no backend is consulted.
\<close>

theorem RouteConnection_rate_limited:
  assumes "\<not> fst (allowConnection (rateLimiter lb) clientID t0 t1)"
  shows "RouteConnection e lb h clientID allowed t0 t1 =
           (Some ErrRateLimitReached,
            lb\<lparr>rateLimiter := snd (allowConnection (rateLimiter lb) clientID t0 t1)\<rparr>, h, []) \<and>
         backends (fst (snd (RouteConnection e lb h clientID allowed t0 t1))) = backends lb \<and>
         fst (RouteConnection e' (lb\<lparr>backends := bs\<rparr>) h2 clientID allowed2 t0 t1) =
           Some ErrRateLimitReached"
  using assms by (auto simp add: RouteConnection_def Let_def split: prod.splits)

theorem RouteConnection_rate_limited_witness:
  "\<not> fst (allowConnection (rateLimiter closed_lb) ''client1'' 0 0) \<and>
   fst (RouteConnection working_env closed_lb example_store ''client1'' example_allowed 0 0) =
     Some ErrRateLimitReached \<and>
   snd (snd (RouteConnection working_env closed_lb example_store ''client1'' example_allowed 0 0)) =
     (example_store, [])"
  using RouteConnection_rate_limited [OF example_deny, of working_env example_store example_allowed]
    example_deny
  by simp

text \<open>
  C10. When \<^verbatim>\<open>allowConnection\<close> returns true, the rate limiter after
  \<^verbatim>\<open>RouteConnection\<close> is the one \<^verbatim>\<open>allowConnection\<close> left, whatever happens next
  (an error of \<^verbatim>\<open>GetBackend\<close>, a failed dial, a failed or a successful relay): the
  client's bucket holds one token less than the refill at the time of the call gave
  it, and the same holds for any other environment, store and allowed set, so a failed
  call spends the token exactly as a successful one does.
\<close>

theorem RouteConnection_token_not_restored:
  assumes "fst (allowConnection (rateLimiter lb) clientID t0 t1)"
  shows "rateLimiter (fst (snd (RouteConnection e lb h clientID allowed t0 t1))) =
           snd (allowConnection (rateLimiter lb) clientID t0 t1) \<and>
         (\<exists>bucket.
            clientBuckets (rateLimiter (fst (snd (RouteConnection e lb h clientID allowed t0 t1))))
              clientID = Some bucket \<and>
            tokens bucket = tokens (refillTokens t1 (lookupBucket (rateLimiter lb) clientID t0)) - 1 \<and>
            unat (tokens bucket) + 1 =
              unat (tokens (refillTokens t1 (lookupBucket (rateLimiter lb) clientID t0)))) \<and>
         rateLimiter (fst (snd (RouteConnection e' lb h2 clientID allowed2 t0 t1))) =
           rateLimiter (fst (snd (RouteConnection e lb h clientID allowed t0 t1)))"
proof -
  let ?b = "refillTokens t1 (lookupBucket (rateLimiter lb) clientID t0)"
  have rl: "rateLimiter (fst (snd (RouteConnection e lb h clientID allowed t0 t1))) =
              snd (allowConnection (rateLimiter lb) clientID t0 t1)" for e h allowed
    using assms
    by (auto simp: RouteConnection_def Let_def split: prod.splits option.splits sum.splits)
  have nz: "tokens ?b \<noteq> 0"
    using assms by (auto simp: allowConnection_fst takeToken_def Let_def split: if_splits)
  then have "unat (tokens ?b) \<noteq> 0" by (simp add: unat_eq_zero)
  then have "unat (tokens ?b - 1) + 1 = unat (tokens ?b)"
    using nz by (simp add: unat_minus_one)
  with nz have "\<exists>bucket. clientBuckets (snd (allowConnection (rateLimiter lb) clientID t0 t1))
       clientID = Some bucket \<and> tokens bucket = tokens ?b - 1 \<and>
       unat (tokens bucket) + 1 = unat (tokens ?b)"
    by (auto simp: allowConnection_def takeToken_def Let_def split: prod.splits)
  then show ?thesis using rl by simp
qed

theorem RouteConnection_token_not_restored_witness:
  "fst (allowConnection (rateLimiter example_lb) ''client1'' 0 0) \<and>
   fst (RouteConnection working_env example_lb example_store ''client1'' {''x:1''} 0 0) =
     Some ErrNoAvailableBackend \<and>
   map_option tokens (clientBuckets (rateLimiter (fst (snd
     (RouteConnection working_env example_lb example_store ''client1'' {''x:1''} 0 0))))
     ''client1'') = Some 4"
proof -
  let ?r = "RouteConnection working_env example_lb example_store ''client1'' {''x:1''} 0 0"
  have none: "\<forall>r\<in>set [0, 1, 2 :: nat]. Address (example_store r) \<notin> {''x:1''}"
    by (simp add: example_store_def)
  have "fst (GetBackend [0, 1, 2] example_store {''x:1''}) = Inl ErrNoAvailableBackend"
    by (simp add: GetBackend_def example_store_def)
  then have res: "fst ?r = Some ErrNoAvailableBackend"
    using example_allow
    by (auto simp: RouteConnection_def Let_def example_lb_def split: prod.splits sum.splits)
  have "map_option tokens (clientBuckets (snd (allowConnection (rateLimiter example_lb)
          ''client1'' 0 0)) ''client1'') = Some 4"
    by (simp add: allowConnection_def example_lb_def newRateLimiter_def lookupBucket_def
        newTokenBucket_def takeToken_def refillTokens_def refillAmount_def Sub_def Seconds_def
        minDuration_def maxDuration_def uint64_of_float64_def float64_of_uint64_def Let_def)
  then show ?thesis
    using RouteConnection_token_not_restored [OF example_allow,
        of working_env example_store "{''x:1''}"] res example_allow
    by simp
qed

section \<open>The token bucket\<close>


text \<open>
  The residue stays in its range: a new bucket has residue 0, and a refill of a bucket
  with a residue in \<open>[0, 1)\<close> leaves a residue in \<open>[0, 1)\<close>, as long as the refill
  amount is one that \<^verbatim>\<open>uint64\<close> can hold.
\<close>

lemma refillTokens_fractional:
  assumes "0 \<le> fractionalTokens tb" and "fractionalTokens tb < 1"
      and "0 \<le> refillAmount now tb" and "refillAmount now tb < 2 ^ 64"
  shows "0 \<le> fractionalTokens (refillTokens now tb) \<and> fractionalTokens (refillTokens now tb) < 1"
proof -
  let ?a = "refillAmount now tb"
  have fl: "0 \<le> \<lfloor>?a\<rfloor>" "\<lfloor>?a\<rfloor> < 2 ^ 64"
    using assms(3,4) by (simp_all add: floor_less_iff)
  then have "unat (word_of_int \<lfloor>?a\<rfloor> :: 64 word) = nat \<lfloor>?a\<rfloor>"
    by (simp add: unsigned_of_int take_bit_int_eq_self)
  then have w: "float64_of_uint64 (uint64_of_float64 ?a) = of_int \<lfloor>?a\<rfloor>"
    using assms(3) fl(1) by (simp add: float64_of_uint64_def uint64_of_float64_def)
  have "0 \<le> ?a - of_int \<lfloor>?a\<rfloor>" "?a - of_int \<lfloor>?a\<rfloor> < 1"
    by linarith+
  with assms(1,2) w show ?thesis
    by (simp add: refillTokens_def Let_def)
qed

text \<open>
  With a refill amount of zero the only statement of \<^verbatim>\<open>refillTokens\<close> that can
  change the bucket is the carry, which is not under the test \<^verbatim>\<open>refillAmount > 0\<close>:
  a residue of one or more loses one, and the token count stays. So the call leaves the
  bucket as it is exactly when the residue is below one.
\<close>

lemma refillTokens_zero_carry:
  assumes "refillAmount now tb = 0"
  shows "refillTokens now tb =
           (if 1 \<le> fractionalTokens tb
            then tb\<lparr>fractionalTokens := fractionalTokens tb - 1\<rparr> else tb)"
  using assms
  by (simp add: refillTokens_def Let_def uint64_of_float64_def float64_of_uint64_def)

lemma refillTokens_zero_unchanged_iff:
  assumes "refillAmount now tb = 0"
  shows "refillTokens now tb = tb \<longleftrightarrow> fractionalTokens tb < 1"
proof
  assume eq: "refillTokens now tb = tb"
  show "fractionalTokens tb < 1"
  proof (rule ccontr)
    assume "\<not> fractionalTokens tb < 1"
    then have "refillTokens now tb = tb\<lparr>fractionalTokens := fractionalTokens tb - 1\<rparr>"
      using assms by (simp add: refillTokens_zero_carry)
    with eq have "fractionalTokens (tb\<lparr>fractionalTokens := fractionalTokens tb - 1\<rparr>) =
        fractionalTokens tb" by simp
    then show False by simp
  qed
next
  assume "fractionalTokens tb < 1"
  then show "refillTokens now tb = tb"
    using assms by (simp add: refillTokens_zero_carry)
qed





section \<open>Authentication\<close>

lemma ValidateCommonName_None:
  "ValidateCommonName clientCert allowedClients = None \<longleftrightarrow>
     CommonName clientCert \<noteq> [] \<and> CommonName clientCert \<in> dom allowedClients"
  by (auto simp: ValidateCommonName_def Let_def split: option.splits)

text \<open>
  C3. The allow-list maps the common name \<^verbatim>\<open>client1.example.com\<close> to false, and the
  client presents a certificate with that name over a TLS connection whose handshake
  succeeds: \<^verbatim>\<open>ValidateCommonName\<close> returns nil and \<^verbatim>\<open>AuthenticateClient\<close> returns the
  certificate. The value stored in the map is not looked at.
\<close>

theorem ValidateCommonName_ignores_value:
  "ValidateCommonName example_cert [''client1.example.com'' \<mapsto> False] = None \<and>
   AuthenticateClient example_conn [''client1.example.com'' \<mapsto> False] = Inr example_cert"
  by (simp add: AuthenticateClient_def GetClientCertificate_def example_conn_def
        ValidateCommonName_def example_cert_def)

section \<open>The client identity\<close>

lemma hextable_hex_digit:
  assumes "n < 16"
  shows "hextable ! n = hex_digit n"
proof -
  from assms have "n = 0 \<or> n = 1 \<or> n = 2 \<or> n = 3 \<or> n = 4 \<or> n = 5 \<or> n = 6 \<or> n = 7
    \<or> n = 8 \<or> n = 9 \<or> n = 10 \<or> n = 11 \<or> n = 12 \<or> n = 13 \<or> n = 14 \<or> n = 15"
    by arith
  then show ?thesis
    by (elim disjE) (simp_all add: hextable_def hex_digit_def)
qed

lemma high_nibble: "unat (drop_bit 4 (v :: 8 word)) = unat v div 16"
  by (simp add: drop_bit_eq_div unat_div)

lemma low_nibble: "unat ((v :: 8 word) AND 0x0f) = unat v mod 16"
proof -
  have "v AND 0x0f = take_bit 4 v"
    by (simp add: take_bit_eq_mask mask_eq_exp_minus_1)
  then show ?thesis
    by (simp add: unsigned_take_bit_eq take_bit_eq_mod unat_mod)
qed

lemma EncodeToString_hex_lowercase: "EncodeToString bs = hex_lowercase bs"
proof (induction bs)
  case Nil
  then show ?case by (simp add: hex_lowercase_def)
next
  case (Cons v bs)
  have "unat v < 256" using unsigned_less [of v] by simp
  then have "unat v div 16 < 16" by simp
  then show ?case using Cons
    by (simp add: hex_lowercase_def high_nibble low_nibble hextable_hex_digit)
qed

lemma length_Sum256: "length (Sum256 m) = 32"
  by (simp add: Sum256_def bytes32_def split: prod.splits)

lemma length_GenerateClientID: "length (GenerateClientID cn serialNumber) = 64"
  by (simp add: GenerateClientID_def EncodeToString_hex_lowercase hex_lowercase_def
        length_concat length_Sum256 comp_def sum_list_triv)

text \<open>
  The identity of the client with common name \<^verbatim>\<open>client1.example.com\<close> and serial
  number \<^verbatim>\<open>1234567890\<close>, computed through the definitions above.
\<close>

lemma GenerateClientID_example:
  "GenerateClientID ''client1.example.com'' ''1234567890'' =
     ''92bca0473241344fca4b1d7df0e8853ec6e75d78519b5713acb71bf4b1dee68b''"
  by code_simp

text \<open>
  C7. For all strings \<open>cn\<close> and \<open>serialNumber\<close>, \<^verbatim>\<open>GenerateClientID\<close> is the lower
  case hexadecimal encoding of the SHA-256 digest of the bytes of \<open>cn\<close>, the byte
  \<open>0x3A\<close> and the bytes of \<open>serialNumber\<close>; for \<^verbatim>\<open>client1.example.com\<close> and
  \<^verbatim>\<open>1234567890\<close> it is the encoding of the digest of the bytes of
  \<^verbatim>\<open>client1.example.com:1234567890\<close>.
\<close>

theorem GenerateClientID_hex_sha256:
  "GenerateClientID cn serialNumber =
     hex_lowercase (Sum256 (bytes cn @ [0x3A] @ bytes serialNumber)) \<and>
   GenerateClientID ''client1.example.com'' ''1234567890'' =
     hex_lowercase (Sum256 (bytes ''client1.example.com:1234567890''))"
proof -
  have enc: "GenerateClientID c s = hex_lowercase (Sum256 (bytes (c @ '':'' @ s)))" for c s
    by (simp add: GenerateClientID_def EncodeToString_hex_lowercase)
  have "bytes (cn @ '':'' @ serialNumber) = bytes cn @ [0x3A] @ bytes serialNumber"
    by (simp add: bytes_def)
  moreover have "''client1.example.com'' @ '':'' @ ''1234567890'' =
      ''client1.example.com:1234567890''"
    by simp
  ultimately show ?thesis
    using enc [of cn serialNumber] enc [of "''client1.example.com''" "''1234567890''"]
    by (simp only:)
qed

section \<open>The accept loop and shutdown\<close>

text \<open>
  On an error of \<^verbatim>\<open>Accept\<close> the loop takes the retry path whenever the counter is
  below the limit, and ends the process otherwise; the shutdown flag is read only at the
  head of the next iteration.
\<close>

lemma accept_loop_closed_retry:
  assumes "retryCount < retryLimit"
  shows "accept_loop False retryCount (ListenerClosed msg # rest) =
           ([Log (''Error accepting connection: '' @ msg), Sleep retryDelay],
            Returned (retryCount + 1))"
  using assms by (cases rest) (simp_all add: Accept_def)

lemma accept_loop_closed_fatal:
  assumes "\<not> retryCount < retryLimit"
  shows "accept_loop False retryCount (ListenerClosed msg # rest) =
           ([Log (''Exiting due to repeated errors: '' @ msg)], Fatal)"
  using assms by (simp add: Accept_def)

text \<open>
  C8. \<^verbatim>\<open>Stop\<close> runs while the loop is blocked in \<^verbatim>\<open>Accept\<close>. The loop logs the
  error of the closed listener as an accept error, sleeps for the retry delay and
  returns with its retry counter incremented to 1; and after five accept errors in a
  row, the closed listener makes the loop end the process through \<^verbatim>\<open>log.Fatalf\<close>.
\<close>

theorem acceptConnections_retries_closed_listener:
  "acceptConnections '':3003'' [ListenerClosed ''use of closed network connection''] =
     ([Log ''Server is listening on :3003'',
       Log ''Error accepting connection: use of closed network connection'',
       Sleep 1000000000], Returned 1) \<and>
   snd (acceptConnections '':3003''
          [Fault ''too many open files'', Fault ''too many open files'',
           Fault ''too many open files'', Fault ''too many open files'',
           Fault ''too many open files'',
           ListenerClosed ''use of closed network connection'']) = Fatal"
  by (simp add: acceptConnections_def Accept_def retryLimit_def retryDelay_def)

section \<open>The command line\<close>

lemma main_config_error:
  assumes "configFileFlag \<noteq> []" and "LoadAppConfig e configFileFlag = Inl err"
  shows "main e configFileFlag = ([Stderr err], Exit 1)"
  using assms by (simp add: main_def)

text \<open>
  C9. Without \<^verbatim>\<open>-config\<close> the variable \<^verbatim>\<open>configFileFlag\<close> is empty: \<^verbatim>\<open>main\<close>
  prints the error line and the usage message and returns, so the process ends with
  status 0.
\<close>

theorem main_without_config_exits_zero:
  "main e [] =
     ([Stdout ''Error: Configuration file not provided'',
       Stderr ''Usage:'',
       Stderr ''  -config string'',
       Stderr (''    '' @ [CHR 0x09] @ ''Path to a configuration file'')],
      Exit 0)"
  by (simp add: main_def)

end
